theory Spec2Isabelle
  imports Complex_Main "HOL-Library.Multiset"
begin

section \<open>Values, exceptions and the engine state\<close>

text \<open>
  The analyzer is a Python class \<^verbatim>\<open>GradeAnalyzer\<close> (grade_analyzer.py). Its public
  methods take arbitrary Python objects, so arguments are values of \<open>pyval\<close>. A number is
  an \<^verbatim>\<open>int\<close> (unbounded; \<^verbatim>\<open>bool\<close> is a subclass of \<^verbatim>\<open>int\<close> and is read as 0 or 1) or
  a \<^verbatim>\<open>float\<close>. A float is represented by the real number it denotes: binary64 rounding,
  overflow, infinities and NaN are not part of the model. Diagnostics written with
  \<^verbatim>\<open>print\<close> are not part of the model either.
\<close>

datatype num = PInt int | PFloat real

datatype pyval = Num num | Str string | NoneV | Obj

fun num_val :: "num \<Rightarrow> real" where
  "num_val (PInt i) = of_int i"
| "num_val (PFloat r) = r"

text \<open>
  Exceptions are values. Every constructor is a subclass of Python's \<^verbatim>\<open>Exception\<close>, which is
  what the handlers \<^verbatim>\<open>except Exception\<close> of the source catch.
\<close>

datatype exn =
  FileNotFoundError | OSError | StopIteration | ValueError | KeyError
  | IndexError | TypeError | ZeroDivisionError | AttributeError | ImportError

text \<open>
  \<^verbatim>\<open>try: body  except Exception as e: print(...); return sentinel\<close>
\<close>

definition try_except :: "exn + 'a \<Rightarrow> 'a \<Rightarrow> exn + 'a" where
  "try_except body sentinel = (case body of Inl e \<Rightarrow> Inr sentinel | Inr v \<Rightarrow> Inr v)"

text \<open>
  A student is the dictionary built by \<^verbatim>\<open>parse_student_line\<close>: keys \<^verbatim>\<open>'id'\<close>, \<^verbatim>\<open>'name'\<close> and
  \<^verbatim>\<open>'grades'\<close>, the last one a dictionary from subject to score, kept as an association
  list in insertion order.
\<close>

record student =
  sid :: string
  sname :: string
  grades :: "(string \<times> int) list"

record engine =
  priv_filename :: string
  priv_students :: "student list"
  priv_loaded :: bool

definition subjects :: "string list" where
  "subjects = [''Math'', ''Physics'', ''Chemistry'', ''Biology'', ''English'']"

definition init :: "string \<Rightarrow> engine" where
  "init filename = \<lparr>priv_filename = filename, priv_students = [], priv_loaded = False\<rparr>"

text \<open>The property \<^verbatim>\<open>students\<close>, read as a value: the records in list order. Its effect on
  the object store (a new list object) is modelled in the section on the object store.\<close>

definition students :: "engine \<Rightarrow> exn + student list" where
  "students e = Inr (priv_students e)"

definition check_data_loaded :: "engine \<Rightarrow> exn + bool" where
  "check_data_loaded e = (if \<not> priv_loaded e then Inr False else Inr True)"

section \<open>Validators\<close>

definition validate_student_id :: "engine \<Rightarrow> pyval \<Rightarrow> exn + student option" where
  "validate_student_id e student_id =
     try_except
       (case student_id of
          Str i \<Rightarrow> Inr (find (\<lambda>s. sid s = i) (priv_students e))
        | _ \<Rightarrow> Inr None)
       None"

definition validate_course_name :: "engine \<Rightarrow> pyval \<Rightarrow> exn + string option" where
  "validate_course_name e course_name =
     try_except
       (case course_name of
          Str c \<Rightarrow> (if c \<notin> set subjects then Inr None else Inr (Some c))
        | _ \<Rightarrow> Inr None)
       None"

text \<open>\<^verbatim>\<open>not x\<close> for a value that is \<^verbatim>\<open>None\<close> or a string: true for \<^verbatim>\<open>None\<close> and for \<^verbatim>\<open>''\<close>.\<close>

definition not_str :: "string option \<Rightarrow> bool" where
  "not_str v = (case v of None \<Rightarrow> True | Some c \<Rightarrow> c = [])"

section \<open>Loading\<close>

text \<open>
  \<^verbatim>\<open>line.strip()\<close> removes leading and trailing whitespace; \<^verbatim>\<open>.split(',')\<close> cuts at every
  comma and keeps empty fields.
\<close>

definition is_space :: "char \<Rightarrow> bool" where
  "is_space c = (c \<in> set [CHR '' '', CHR 0x09, CHR 0x0A, CHR 0x0B, CHR 0x0C, CHR 0x0D,
                            CHR 0x1C, CHR 0x1D, CHR 0x1E, CHR 0x1F])"

definition strip :: "string \<Rightarrow> string" where
  "strip s = rev (dropWhile is_space (rev (dropWhile is_space s)))"

fun split_on :: "char \<Rightarrow> string \<Rightarrow> string list" where
  "split_on sep [] = [[]]"
| "split_on sep (c # cs) =
     (if c = sep then [] # split_on sep cs
      else (case split_on sep cs of
              [] \<Rightarrow> [[c]]
            | w # ws \<Rightarrow> (c # w) # ws))"

text \<open>
  \<^verbatim>\<open>int(s)\<close> is a builtin: it is the parameter \<open>py_int\<close>, \<open>None\<close> where Python raises
  \<^verbatim>\<open>ValueError\<close>.
\<close>

definition int_field :: "(string \<Rightarrow> int option) \<Rightarrow> string \<Rightarrow> exn + int" where
  "int_field py_int s = (case py_int s of None \<Rightarrow> Inl ValueError | Some i \<Rightarrow> Inr i)"

definition make_student ::
  "string \<Rightarrow> string \<Rightarrow> int \<Rightarrow> int \<Rightarrow> int \<Rightarrow> int \<Rightarrow> int \<Rightarrow> student" where
  "make_student i n m p c b en =
     \<lparr>sid = i, sname = n,
      grades = [(''Math'', m), (''Physics'', p), (''Chemistry'', c), (''Biology'', b),
                (''English'', en)]\<rparr>"

definition parse_student_line :: "(string \<Rightarrow> int option) \<Rightarrow> string \<Rightarrow> exn + student option" where
  "parse_student_line py_int line =
     try_except
       (let parts = split_on CHR '','' (strip line) in
        if length parts \<noteq> 7 then Inr None
        else
          (case int_field py_int (parts ! 2) of Inl x \<Rightarrow> Inl x | Inr m \<Rightarrow>
           case int_field py_int (parts ! 3) of Inl x \<Rightarrow> Inl x | Inr p \<Rightarrow>
           case int_field py_int (parts ! 4) of Inl x \<Rightarrow> Inl x | Inr c \<Rightarrow>
           case int_field py_int (parts ! 5) of Inl x \<Rightarrow> Inl x | Inr b \<Rightarrow>
           case int_field py_int (parts ! 6) of Inl x \<Rightarrow> Inl x | Inr en \<Rightarrow>
             Inr (Some (make_student (parts ! 0) (parts ! 1) m p c b en))))
       None"

text \<open>
  What \<^verbatim>\<open>open(self._filename, 'r')\<close> and the iteration over the file give: the file is
  absent (\<^verbatim>\<open>FileNotFoundError\<close>), cannot be opened for another reason (an \<^verbatim>\<open>OSError\<close> such as
  \<^verbatim>\<open>PermissionError\<close>), is read to its end (\<open>Content\<close>, its lines), or delivers some lines
  and then fails (\<open>Broken\<close>, an \<^verbatim>\<open>OSError\<close> or a decoding error in the middle of the read).
\<close>

datatype source = Absent | Unopenable | Content "string list" | Broken "string list"

text \<open>The loop \<^verbatim>\<open>for line in file: student = parse(line); if student: append\<close>.\<close>

fun read_students :: "(string \<Rightarrow> int option) \<Rightarrow> student list \<Rightarrow> string list \<Rightarrow> exn + student list" where
  "read_students py_int acc [] = Inr acc"
| "read_students py_int acc (line # rest) =
     (case parse_student_line py_int line of
        Inl x \<Rightarrow> Inl x
      | Inr None \<Rightarrow> read_students py_int acc rest
      | Inr (Some s) \<Rightarrow> read_students py_int (acc @ [s]) rest)"

text \<open>
  The body of the \<^verbatim>\<open>with\<close> block, run on an opened file: the state it leaves and the
  exception it raises, if any. \<^verbatim>\<open>next(file)\<close> on a file with no line raises
  \<^verbatim>\<open>StopIteration\<close>.
\<close>

definition with_block ::
  "(string \<Rightarrow> int option) \<Rightarrow> engine \<Rightarrow> string list \<Rightarrow> bool \<Rightarrow> engine \<times> exn option" where
  "with_block py_int e lines fails =
     (let e1 = e\<lparr>priv_students := [], priv_loaded := False\<rparr> in
      case lines of
        [] \<Rightarrow> (e1, Some (if fails then OSError else StopIteration))
      | header # rest \<Rightarrow>
          (case read_students py_int [] rest of
             Inl x \<Rightarrow> (e1, Some x)
           | Inr sts \<Rightarrow>
               (let e2 = e1\<lparr>priv_students := sts\<rparr> in
                if fails then (e2, Some OSError)
                else (e2\<lparr>priv_loaded := True\<rparr>, None))))"

text \<open>
  The two handlers of \<^verbatim>\<open>load_data\<close>: \<^verbatim>\<open>except FileNotFoundError\<close> prints;
  \<^verbatim>\<open>except Exception\<close> prints and sets \<^verbatim>\<open>self._loaded = False\<close>. Neither re-raises.
\<close>

definition load_handlers :: "engine \<Rightarrow> exn \<Rightarrow> engine \<times> exn option" where
  "load_handlers e x =
     (if x = FileNotFoundError then (e, None)
      else (e\<lparr>priv_loaded := False\<rparr>, None))"

text \<open>\<open>load_data\<close> returns the new state and the exception that reaches the caller, if any.\<close>

definition load_data :: "(string \<Rightarrow> int option) \<Rightarrow> engine \<Rightarrow> source \<Rightarrow> engine \<times> exn option" where
  "load_data py_int e src =
     (case src of
        Absent \<Rightarrow> load_handlers e FileNotFoundError
      | Unopenable \<Rightarrow> load_handlers e OSError
      | Content lines \<Rightarrow>
          (case with_block py_int e lines False of
             (e', None) \<Rightarrow> (e', None)
           | (e', Some x) \<Rightarrow> load_handlers e' x)
      | Broken lines \<Rightarrow>
          (case with_block py_int e lines True of
             (e', None) \<Rightarrow> (e', None)
           | (e', Some x) \<Rightarrow> load_handlers e' x))"

text \<open>The loop of \<^verbatim>\<open>validate_data\<close>: every record is a dictionary with string \<^verbatim>\<open>'id'\<close> and
  \<^verbatim>\<open>'name'\<close> by its type here, so the check left is the number of grades.\<close>

fun validate_records :: "student list \<Rightarrow> bool" where
  "validate_records [] = True"
| "validate_records (s # rest) =
     (if length (grades s) \<noteq> length subjects then False else validate_records rest)"

definition validate_data :: "engine \<Rightarrow> exn + bool" where
  "validate_data e =
     try_except
       (case check_data_loaded e of
          Inl x \<Rightarrow> Inl x
        | Inr ok \<Rightarrow> if ok = False then Inr False else Inr (validate_records (priv_students e)))
       False"

definition get_student_count :: "engine \<Rightarrow> exn + nat" where
  "get_student_count e =
     try_except
       (case check_data_loaded e of
          Inl x \<Rightarrow> Inl x
        | Inr ok \<Rightarrow> if ok = False then Inr 0 else Inr (length (priv_students e)))
       0"

section \<open>Per-student statistics\<close>

text \<open>\<^verbatim>\<open>sum(xs) / len(xs)\<close>: true division of two ints, a float.\<close>

definition py_mean :: "int list \<Rightarrow> exn + real" where
  "py_mean xs =
     (if length xs = 0 then Inl ZeroDivisionError
      else Inr (real_of_int (sum_list xs) / real (length xs)))"

definition calculate_student_average :: "engine \<Rightarrow> pyval \<Rightarrow> exn + real option" where
  "calculate_student_average e student_id =
     try_except
       (case check_data_loaded e of
          Inl x \<Rightarrow> Inl x
        | Inr ok \<Rightarrow>
            if ok = False then Inr None
            else (case validate_student_id e student_id of
                    Inl x \<Rightarrow> Inl x
                  | Inr None \<Rightarrow> Inr None
                  | Inr (Some s) \<Rightarrow>
                      (case py_mean (map snd (grades s)) of
                         Inl x \<Rightarrow> Inl x
                       | Inr a \<Rightarrow> Inr (Some a))))
       None"

text \<open>\<^verbatim>\<open>max(items, key=lambda item: item[1])\<close> and \<^verbatim>\<open>min\<close>: the first item with the extreme
  score, \<^verbatim>\<open>ValueError\<close> on no item.\<close>

fun max_item :: "(string \<times> int) list \<Rightarrow> exn + (string \<times> int)" where
  "max_item [] = Inl ValueError"
| "max_item (x # xs) = Inr (foldl (\<lambda>best y. if snd y > snd best then y else best) x xs)"

fun min_item :: "(string \<times> int) list \<Rightarrow> exn + (string \<times> int)" where
  "min_item [] = Inl ValueError"
| "min_item (x # xs) = Inr (foldl (\<lambda>best y. if snd y < snd best then y else best) x xs)"

definition get_student_highest_score :: "engine \<Rightarrow> pyval \<Rightarrow> exn + (string \<times> int) option" where
  "get_student_highest_score e student_id =
     try_except
       (case check_data_loaded e of
          Inl x \<Rightarrow> Inl x
        | Inr ok \<Rightarrow>
            if ok = False then Inr None
            else (case validate_student_id e student_id of
                    Inl x \<Rightarrow> Inl x
                  | Inr None \<Rightarrow> Inr None
                  | Inr (Some s) \<Rightarrow>
                      (case max_item (grades s) of
                         Inl x \<Rightarrow> Inl x
                       | Inr it \<Rightarrow> Inr (Some it))))
       None"

definition get_student_lowest_score :: "engine \<Rightarrow> pyval \<Rightarrow> exn + (string \<times> int) option" where
  "get_student_lowest_score e student_id =
     try_except
       (case check_data_loaded e of
          Inl x \<Rightarrow> Inl x
        | Inr ok \<Rightarrow>
            if ok = False then Inr None
            else (case validate_student_id e student_id of
                    Inl x \<Rightarrow> Inl x
                  | Inr None \<Rightarrow> Inr None
                  | Inr (Some s) \<Rightarrow>
                      (case min_item (grades s) of
                         Inl x \<Rightarrow> Inl x
                       | Inr it \<Rightarrow> Inr (Some it))))
       None"

text \<open>The guard \<^verbatim>\<open>not isinstance(t, (int, float)) or t < 0 or t > 100\<close>.\<close>

definition out_of_range :: "pyval \<Rightarrow> bool" where
  "out_of_range v = (case v of Num n \<Rightarrow> num_val n < 0 \<or> num_val n > 100 | _ \<Rightarrow> True)"

definition is_student_passing :: "engine \<Rightarrow> pyval \<Rightarrow> pyval \<Rightarrow> exn + bool option" where
  "is_student_passing e student_id threshold =
     try_except
       (case check_data_loaded e of
          Inl x \<Rightarrow> Inl x
        | Inr ok \<Rightarrow>
            if ok = False then Inr (Some False)
            else (case validate_student_id e student_id of
                    Inl x \<Rightarrow> Inl x
                  | Inr None \<Rightarrow> Inr None
                  | Inr (Some s) \<Rightarrow>
                      if out_of_range threshold then Inr None
                      else (case calculate_student_average e student_id of
                              Inl x \<Rightarrow> Inl x
                            | Inr None \<Rightarrow> Inr (Some False)
                            | Inr (Some average) \<Rightarrow>
                                (case threshold of
                                   Num t \<Rightarrow> Inr (Some (average \<ge> num_val t))
                                 | _ \<Rightarrow> Inl TypeError))))
       None"

text \<open>
  Text is built with Python's formatting of ints, floats, lists and dictionaries, which
  are builtins: they are the fields of \<open>fmt\<close>. \<open>fmt_2f\<close> is \<^verbatim>\<open>format(x, '.2f')\<close>.
\<close>

record fmt =
  str_int :: "int \<Rightarrow> string"
  fmt_2f :: "real \<Rightarrow> string"
  str_ranking :: "(string \<times> real option) list \<Rightarrow> string"
  str_students :: "student list \<Rightarrow> string"
  str_distribution :: "(string \<times> nat) list \<Rightarrow> string"

definition nl :: string where
  "nl = [CHR 0x0A]"

definition get_student_info :: "fmt \<Rightarrow> engine \<Rightarrow> pyval \<Rightarrow> exn + string option" where
  "get_student_info f e student_id =
     try_except
       (case check_data_loaded e of
          Inl x \<Rightarrow> Inl x
        | Inr ok \<Rightarrow>
            if ok = False then Inr None
            else (case validate_student_id e student_id of
                    Inl x \<Rightarrow> Inl x
                  | Inr None \<Rightarrow> Inr None
                  | Inr (Some s) \<Rightarrow>
                      Inr (Some (foldl (\<lambda>info (subject, grade).
                                          info @ ''  '' @ subject @ '': '' @ str_int f grade @ nl)
                                   (''Student ID: '' @ sid s @ nl @ ''Name: '' @ sname s @ nl
                                      @ ''Grades:'' @ nl)
                                   (grades s)))))
       None"

section \<open>Letter grades\<close>

text \<open>The loop \<^verbatim>\<open>for threshold, letter in grades: if score >= threshold: return letter\<close>,
  followed by \<^verbatim>\<open>return 'F'\<close>.\<close>

fun first_band :: "(real \<times> string) list \<Rightarrow> real \<Rightarrow> string" where
  "first_band [] score = ''F''"
| "first_band ((threshold, letter) # rest) score =
     (if score \<ge> threshold then letter else first_band rest score)"

definition grade_bands :: "(real \<times> string) list" where
  "grade_bands = [(90, ''A''), (80, ''B''), (70, ''C''), (60, ''D''), (50, ''E'')]"

definition convert_to_letter_grade :: "pyval \<Rightarrow> exn + string option" where
  "convert_to_letter_grade score =
     try_except
       (case score of
          Num n \<Rightarrow>
            (if num_val n < 0 \<or> num_val n > 100 then Inr None
             else Inr (Some (first_band grade_bands (num_val n))))
        | _ \<Rightarrow> Inr None)
       None"

section \<open>Per-subject statistics\<close>

text \<open>\<^verbatim>\<open>d.get(key, 0)\<close> on the grades dictionary.\<close>

definition get_default :: "(string \<times> int) list \<Rightarrow> string \<Rightarrow> int \<Rightarrow> int" where
  "get_default d k dflt = (case map_of d k of None \<Rightarrow> dflt | Some v \<Rightarrow> v)"

definition get_course_scores :: "engine \<Rightarrow> pyval \<Rightarrow> exn + int list" where
  "get_course_scores e course_name =
     try_except
       (case check_data_loaded e of
          Inl x \<Rightarrow> Inl x
        | Inr ok \<Rightarrow>
            if ok = False then Inr []
            else (case validate_course_name e course_name of
                    Inl x \<Rightarrow> Inl x
                  | Inr course \<Rightarrow>
                      if not_str course then Inr []
                      else (case course_name of
                              Str c \<Rightarrow> Inr (map (\<lambda>s. get_default (grades s) c 0) (priv_students e))
                            | _ \<Rightarrow> Inl TypeError)))
       []"

definition calculate_course_average :: "engine \<Rightarrow> pyval \<Rightarrow> exn + num" where
  "calculate_course_average e course_name =
     try_except
       (case check_data_loaded e of
          Inl x \<Rightarrow> Inl x
        | Inr ok \<Rightarrow>
            if ok = False then Inr (PInt 0)
            else (case validate_course_name e course_name of
                    Inl x \<Rightarrow> Inl x
                  | Inr course \<Rightarrow>
                      if not_str course then Inr (PInt 0)
                      else (case get_course_scores e course_name of
                              Inl x \<Rightarrow> Inl x
                            | Inr scores \<Rightarrow>
                                if scores \<noteq> [] then
                                  (case py_mean scores of
                                     Inl x \<Rightarrow> Inl x
                                   | Inr a \<Rightarrow> Inr (PFloat a))
                                else Inr (PInt 0))))
       (PInt 0)"

text \<open>\<^verbatim>\<open>xs[i]\<close> for an int \<open>i\<close>: a negative index counts from the end, and an index outside
  the list raises \<^verbatim>\<open>IndexError\<close>.\<close>

definition py_getitem :: "'a list \<Rightarrow> int \<Rightarrow> exn + 'a" where
  "py_getitem xs i =
     (let k = (if i < 0 then i + int (length xs) else i)
      in if k < 0 \<or> int (length xs) \<le> k then Inl IndexError else Inr (xs ! nat k))"

definition find_course_median :: "engine \<Rightarrow> pyval \<Rightarrow> exn + num option" where
  "find_course_median e course_name =
     try_except
       (case get_course_scores e course_name of
          Inl x \<Rightarrow> Inl x
        | Inr cs \<Rightarrow>
            (let scores = sort cs; n = int (length scores) in
             if n = 0 then Inr None
             else (let mid = n div 2 in
                   if n mod 2 \<noteq> 0 then
                     (case py_getitem scores mid of
                        Inl x \<Rightarrow> Inl x
                      | Inr m \<Rightarrow> Inr (Some (PInt m)))
                   else
                     (case py_getitem scores (mid - 1) of
                        Inl x \<Rightarrow> Inl x
                      | Inr a \<Rightarrow>
                          (case py_getitem scores mid of
                             Inl x \<Rightarrow> Inl x
                           | Inr b \<Rightarrow> Inr (Some (PFloat (real_of_int (a + b) / 2))))))))
       None"

text \<open>
  \<^verbatim>\<open>distribution[letter_grade] += 1\<close>: the key is what \<open>convert_to_letter_grade\<close> returned,
  a letter or \<^verbatim>\<open>None\<close>; a key that the dictionary does not hold raises \<^verbatim>\<open>KeyError\<close>.
\<close>

definition dict_incr :: "(string \<times> nat) list \<Rightarrow> string option \<Rightarrow> exn + (string \<times> nat) list" where
  "dict_incr d key =
     (case key of
        None \<Rightarrow> Inl KeyError
      | Some l \<Rightarrow>
          (case map_of d l of
             None \<Rightarrow> Inl KeyError
           | Some c \<Rightarrow> Inr (map (\<lambda>(k, v). if k = l then (k, c + 1) else (k, v)) d)))"

fun tally :: "(string \<times> nat) list \<Rightarrow> int list \<Rightarrow> exn + (string \<times> nat) list" where
  "tally d [] = Inr d"
| "tally d (score # rest) =
     (case convert_to_letter_grade (Num (PInt score)) of
        Inl x \<Rightarrow> Inl x
      | Inr letter_grade \<Rightarrow>
          (case dict_incr d letter_grade of
             Inl x \<Rightarrow> Inl x
           | Inr d' \<Rightarrow> tally d' rest))"

definition get_course_grade_distribution :: "engine \<Rightarrow> pyval \<Rightarrow> exn + (string \<times> nat) list" where
  "get_course_grade_distribution e course_name =
     try_except
       (case check_data_loaded e of
          Inl x \<Rightarrow> Inl x
        | Inr ok \<Rightarrow>
            if ok = False then Inr []
            else (case validate_course_name e course_name of
                    Inl x \<Rightarrow> Inl x
                  | Inr course \<Rightarrow>
                      if not_str course then Inr []
                      else (case get_course_scores e course_name of
                              Inl x \<Rightarrow> Inl x
                            | Inr scores \<Rightarrow>
                                tally [(''A'', 0), (''B'', 0), (''C'', 0), (''D'', 0),
                                       (''E'', 0), (''F'', 0)] scores)))
       []"

text \<open>The loop \<^verbatim>\<open>for subject in self._subjects: averages[subject] = ...\<close>; the subjects are
  distinct, so the dictionary's items are one pair per subject, in that order.\<close>

fun course_averages :: "engine \<Rightarrow> string list \<Rightarrow> exn + (string \<times> num) list" where
  "course_averages e [] = Inr []"
| "course_averages e (subject # rest) =
     (case calculate_course_average e (Str subject) of
        Inl x \<Rightarrow> Inl x
      | Inr a \<Rightarrow>
          (case course_averages e rest of
             Inl x \<Rightarrow> Inl x
           | Inr as \<Rightarrow> Inr ((subject, a) # as)))"

definition rank_courses_by_difficulty :: "engine \<Rightarrow> exn + (string \<times> num) list" where
  "rank_courses_by_difficulty e =
     try_except
       (case check_data_loaded e of
          Inl x \<Rightarrow> Inl x
        | Inr ok \<Rightarrow>
            if ok = False then Inr []
            else (case course_averages e subjects of
                    Inl x \<Rightarrow> Inl x
                  | Inr averages \<Rightarrow> Inr (sort_key (\<lambda>item. num_val (snd item)) averages)))
       []"

record course_stats =
  average :: num
  median :: "num option"
  highest :: int
  lowest :: int
  distribution :: "(string \<times> nat) list"

text \<open>\<^verbatim>\<open>max(xs, default=0)\<close> and \<^verbatim>\<open>min(xs, default=0)\<close>.\<close>

definition max_default :: "int list \<Rightarrow> int" where
  "max_default xs = (case xs of [] \<Rightarrow> 0 | y # ys \<Rightarrow> foldl max y ys)"

definition min_default :: "int list \<Rightarrow> int" where
  "min_default xs = (case xs of [] \<Rightarrow> 0 | y # ys \<Rightarrow> foldl min y ys)"

definition get_course_statistics :: "engine \<Rightarrow> pyval \<Rightarrow> exn + course_stats option" where
  "get_course_statistics e course_name =
     try_except
       (case check_data_loaded e of
          Inl x \<Rightarrow> Inl x
        | Inr ok \<Rightarrow>
            if ok = False then Inr None
            else (case validate_course_name e course_name of
                    Inl x \<Rightarrow> Inl x
                  | Inr course \<Rightarrow>
                      if not_str course then Inr None
                      else
                        (case calculate_course_average e course_name of Inl x \<Rightarrow> Inl x | Inr av \<Rightarrow>
                         case find_course_median e course_name of Inl x \<Rightarrow> Inl x | Inr md \<Rightarrow>
                         case get_course_scores e course_name of Inl x \<Rightarrow> Inl x | Inr s1 \<Rightarrow>
                         case get_course_scores e course_name of Inl x \<Rightarrow> Inl x | Inr s2 \<Rightarrow>
                         case get_course_grade_distribution e course_name of Inl x \<Rightarrow> Inl x
                         | Inr distr \<Rightarrow>
                             Inr (Some \<lparr>average = av, median = md, highest = max_default s1,
                                        lowest = min_default s2, distribution = distr\<rparr>))))
       None"

section \<open>Ranking and segmentation\<close>

text \<open>
  \<^verbatim>\<open>sorted(averages, key=lambda item: item[1], reverse=True)\<close>. The keys are what
  \<open>calculate_student_average\<close> returned, a float or \<^verbatim>\<open>None\<close>; a sort of two or more items
  compares every one of them, and a comparison with \<^verbatim>\<open>None\<close> raises \<^verbatim>\<open>TypeError\<close>.
  Python keeps a reversed sort stable by reversing the list, sorting it and reversing the
  result.
\<close>

definition avg_key :: "string \<times> real option \<Rightarrow> real" where
  "avg_key item = (case snd item of None \<Rightarrow> 0 | Some a \<Rightarrow> a)"

definition sorted_desc :: "(string \<times> real option) list \<Rightarrow> exn + (string \<times> real option) list" where
  "sorted_desc items =
     (if 2 \<le> length items \<and> None \<in> snd ` set items then Inl TypeError
      else Inr (rev (sort_key avg_key (rev items))))"

fun student_averages :: "engine \<Rightarrow> student list \<Rightarrow> exn + (string \<times> real option) list" where
  "student_averages e [] = Inr []"
| "student_averages e (s # rest) =
     (case calculate_student_average e (Str (sid s)) of
        Inl x \<Rightarrow> Inl x
      | Inr a \<Rightarrow>
          (case student_averages e rest of
             Inl x \<Rightarrow> Inl x
           | Inr as \<Rightarrow> Inr ((sid s, a) # as)))"

definition rank_students_by_average :: "engine \<Rightarrow> exn + (string \<times> real option) list" where
  "rank_students_by_average e =
     try_except
       (case check_data_loaded e of
          Inl x \<Rightarrow> Inl x
        | Inr ok \<Rightarrow>
            if ok = False then Inr []
            else (case student_averages e (priv_students e) of
                    Inl x \<Rightarrow> Inl x
                  | Inr averages \<Rightarrow> sorted_desc averages))
       []"

definition get_top_performers :: "engine \<Rightarrow> pyval \<Rightarrow> exn + (string \<times> real option) list" where
  "get_top_performers e n =
     try_except
       (case check_data_loaded e of
          Inl x \<Rightarrow> Inl x
        | Inr ok \<Rightarrow>
            if ok = False then Inr []
            else (case n of
                    Num (PInt k) \<Rightarrow>
                      if k \<le> 0 then Inr []
                      else (case rank_students_by_average e of
                              Inl x \<Rightarrow> Inl x
                            | Inr ranking \<Rightarrow> Inr (take (nat k) ranking))
                  | _ \<Rightarrow> Inr []))
       []"

text \<open>The comprehension \<^verbatim>\<open>[s for s in students if average(s['id']) < threshold]\<close>;
  \<^verbatim>\<open>None < threshold\<close> raises \<^verbatim>\<open>TypeError\<close>.\<close>

fun below_threshold :: "engine \<Rightarrow> real \<Rightarrow> student list \<Rightarrow> exn + student list" where
  "below_threshold e t [] = Inr []"
| "below_threshold e t (s # rest) =
     (case calculate_student_average e (Str (sid s)) of
        Inl x \<Rightarrow> Inl x
      | Inr None \<Rightarrow> Inl TypeError
      | Inr (Some a) \<Rightarrow>
          (case below_threshold e t rest of
             Inl x \<Rightarrow> Inl x
           | Inr ss \<Rightarrow> Inr (if a < t then s # ss else ss)))"

definition get_struggling_students :: "engine \<Rightarrow> pyval \<Rightarrow> exn + student list" where
  "get_struggling_students e threshold =
     try_except
       (case check_data_loaded e of
          Inl x \<Rightarrow> Inl x
        | Inr ok \<Rightarrow>
            if ok = False then Inr []
            else if out_of_range threshold then Inr []
            else (case threshold of
                    Num t \<Rightarrow> below_threshold e (num_val t) (priv_students e)
                  | _ \<Rightarrow> Inl TypeError))
       []"

section \<open>Class statistics and correlations\<close>

record class_stats =
  top_performers :: "(string \<times> real option) list"
  struggling_students :: "student list"
  subject_statistics :: "(string \<times> course_stats option) list"
  student_count :: nat

fun subject_stats :: "engine \<Rightarrow> string list \<Rightarrow> exn + (string \<times> course_stats option) list" where
  "subject_stats e [] = Inr []"
| "subject_stats e (subject # rest) =
     (case get_course_statistics e (Str subject) of
        Inl x \<Rightarrow> Inl x
      | Inr st \<Rightarrow>
          (case subject_stats e rest of
             Inl x \<Rightarrow> Inl x
           | Inr sts \<Rightarrow> Inr ((subject, st) # sts)))"

definition calculate_class_statistics :: "engine \<Rightarrow> exn + class_stats option" where
  "calculate_class_statistics e =
     try_except
       (case check_data_loaded e of
          Inl x \<Rightarrow> Inl x
        | Inr ok \<Rightarrow>
            if \<not> ok then Inr None
            else
              (case subject_stats e subjects of Inl x \<Rightarrow> Inl x | Inr sts \<Rightarrow>
               case get_top_performers e (Num (PInt 5)) of Inl x \<Rightarrow> Inl x | Inr best \<Rightarrow>
               case get_struggling_students e (Num (PInt 60)) of Inl x \<Rightarrow> Inl x | Inr weak \<Rightarrow>
                 Inr (Some \<lparr>top_performers = best, struggling_students = weak,
                            subject_statistics = sts,
                            student_count = length (priv_students e)\<rparr>)))
       None"

text \<open>
  \<open>find_subject_correlations\<close> imports numpy, which is not part of the repository: whether
  the import succeeds, \<^verbatim>\<open>float(np.corrcoef(xs, ys)[0, 1])\<close> and the sort of the triples by
  \<^verbatim>\<open>abs\<close> of that float, descending, are the fields of \<open>numpy\<close>, over a type \<open>'f\<close> of floats.
\<close>

record 'f numpy =
  np_importable :: bool
  corrcoef :: "int list \<Rightarrow> int list \<Rightarrow> exn + 'f"
  sort_abs_desc :: "(string \<times> string \<times> 'f) list \<Rightarrow> (string \<times> string \<times> 'f) list"

text \<open>\<^verbatim>\<open>[student['grades'][subject] for student in self._students]\<close>.\<close>

fun column :: "string \<Rightarrow> student list \<Rightarrow> exn + int list" where
  "column subject [] = Inr []"
| "column subject (s # rest) =
     (case map_of (grades s) subject of
        None \<Rightarrow> Inl KeyError
      | Some v \<Rightarrow>
          (case column subject rest of
             Inl x \<Rightarrow> Inl x
           | Inr vs \<Rightarrow> Inr (v # vs)))"

fun columns :: "string list \<Rightarrow> student list \<Rightarrow> exn + (string \<times> int list) list" where
  "columns [] sts = Inr []"
| "columns (subject # rest) sts =
     (case column subject sts of
        Inl x \<Rightarrow> Inl x
      | Inr vs \<Rightarrow>
          (case columns rest sts of
             Inl x \<Rightarrow> Inl x
           | Inr cs \<Rightarrow> Inr ((subject, vs) # cs)))"

text \<open>The two nested loops \<^verbatim>\<open>for i, s1 in enumerate(subjects): for s2 in subjects[i+1:]\<close>.\<close>

fun subject_pairs :: "string list \<Rightarrow> (string \<times> string) list" where
  "subject_pairs [] = []"
| "subject_pairs (s1 # rest) = map (Pair s1) rest @ subject_pairs rest"

fun correlate ::
  "'f numpy \<Rightarrow> (string \<times> int list) list \<Rightarrow> (string \<times> string) list \<Rightarrow>
   exn + (string \<times> string \<times> 'f) list" where
  "correlate np scores [] = Inr []"
| "correlate np scores ((s1, s2) # rest) =
     (case map_of scores s1 of None \<Rightarrow> Inl KeyError | Some xs \<Rightarrow>
      case map_of scores s2 of None \<Rightarrow> Inl KeyError | Some ys \<Rightarrow>
      case corrcoef np xs ys of Inl x \<Rightarrow> Inl x | Inr c \<Rightarrow>
      case correlate np scores rest of Inl x \<Rightarrow> Inl x | Inr cs \<Rightarrow>
        Inr ((s1, s2, c) # cs))"

text \<open>The result is a list; the handler returns \<^verbatim>\<open>{}\<close>, an empty dictionary.\<close>

datatype 'a list_or_dict = PyList "'a list" | EmptyDict

definition find_subject_correlations ::
  "'f numpy \<Rightarrow> engine \<Rightarrow> exn + (string \<times> string \<times> 'f) list_or_dict" where
  "find_subject_correlations np e =
     try_except
       (if \<not> np_importable np then Inl ImportError
        else (case check_data_loaded e of
                Inl x \<Rightarrow> Inl x
              | Inr ok \<Rightarrow>
                  if \<not> ok then Inr (PyList [])
                  else
                    (case columns subjects (priv_students e) of Inl x \<Rightarrow> Inl x | Inr scores \<Rightarrow>
                     case correlate np scores (subject_pairs subjects) of Inl x \<Rightarrow> Inl x
                     | Inr correlations \<Rightarrow> Inr (PyList (sort_abs_desc np correlations)))))
       EmptyDict"

fun distributions :: "engine \<Rightarrow> string list \<Rightarrow> exn + (string \<times> (string \<times> nat) list) list" where
  "distributions e [] = Inr []"
| "distributions e (subject # rest) =
     (case get_course_grade_distribution e (Str subject) of
        Inl x \<Rightarrow> Inl x
      | Inr d \<Rightarrow>
          (case distributions e rest of
             Inl x \<Rightarrow> Inl x
           | Inr ds \<Rightarrow> Inr ((subject, d) # ds)))"

definition get_grade_distribution_summary ::
  "engine \<Rightarrow> exn + (string \<times> (string \<times> nat) list) list" where
  "get_grade_distribution_summary e =
     try_except
       (case check_data_loaded e of
          Inl x \<Rightarrow> Inl x
        | Inr ok \<Rightarrow> if ok = False then Inr [] else distributions e subjects)
       []"

section \<open>Reports\<close>

text \<open>\<^verbatim>\<open>f"{x}"\<close> for \<open>x\<close> a string or \<^verbatim>\<open>None\<close>.\<close>

definition str_opt :: "string option \<Rightarrow> string" where
  "str_opt v = (case v of None \<Rightarrow> ''None'' | Some s \<Rightarrow> s)"

fun letter_lines :: "(string \<times> int) list \<Rightarrow> exn + string" where
  "letter_lines [] = Inr []"
| "letter_lines ((subject, score) # rest) =
     (case convert_to_letter_grade (Num (PInt score)) of
        Inl x \<Rightarrow> Inl x
      | Inr letter \<Rightarrow>
          (case letter_lines rest of
             Inl x \<Rightarrow> Inl x
           | Inr ls \<Rightarrow> Inr (''  '' @ subject @ '': '' @ str_opt letter @ nl @ ls)))"

text \<open>The text of the student report, from the results of the five queries. Formatting
  \<^verbatim>\<open>None\<close> with \<^verbatim>\<open>.2f\<close> and subscripting \<^verbatim>\<open>None\<close> raise \<^verbatim>\<open>TypeError\<close>.\<close>

definition student_report_text ::
  "fmt \<Rightarrow> student \<Rightarrow> string option \<Rightarrow> real option \<Rightarrow> (string \<times> int) option \<Rightarrow>
   (string \<times> int) option \<Rightarrow> bool option \<Rightarrow> exn + string" where
  "student_report_text f student_data info avg high low passing =
     (case avg of None \<Rightarrow> Inl TypeError | Some a \<Rightarrow>
      case high of None \<Rightarrow> Inl TypeError | Some h \<Rightarrow>
      case low of None \<Rightarrow> Inl TypeError | Some l \<Rightarrow>
      case letter_lines (grades student_data) of Inl x \<Rightarrow> Inl x | Inr letters \<Rightarrow>
        Inr (str_opt info
             @ ''Average Score: '' @ fmt_2f f a @ nl
             @ ''Highest Score: '' @ fst h @ '' ('' @ str_int f (snd h) @ '')'' @ nl
             @ ''Lowest Score: '' @ fst l @ '' ('' @ str_int f (snd l) @ '')'' @ nl
             @ ''Passing Status: ''
             @ (if passing = Some True then ''Passing'' else ''Failing'') @ nl
             @ ''Letter Grades:'' @ nl
             @ letters
             @ nl))"

definition generate_student_report :: "fmt \<Rightarrow> engine \<Rightarrow> pyval \<Rightarrow> exn + string option" where
  "generate_student_report f e student_id =
     try_except
       (case check_data_loaded e of
          Inl x \<Rightarrow> Inl x
        | Inr ok \<Rightarrow>
            if \<not> ok then Inr None
            else (case validate_student_id e student_id of
                    Inl x \<Rightarrow> Inl x
                  | Inr None \<Rightarrow> Inr None
                  | Inr (Some student_data) \<Rightarrow>
                      (case get_student_info f e student_id of Inl x \<Rightarrow> Inl x | Inr info \<Rightarrow>
                       case calculate_student_average e student_id of Inl x \<Rightarrow> Inl x | Inr avg \<Rightarrow>
                       case get_student_highest_score e student_id of Inl x \<Rightarrow> Inl x | Inr high \<Rightarrow>
                       case get_student_lowest_score e student_id of Inl x \<Rightarrow> Inl x | Inr low \<Rightarrow>
                       case is_student_passing e student_id (Num (PInt 60)) of Inl x \<Rightarrow> Inl x
                       | Inr passing \<Rightarrow>
                       case student_report_text f student_data info avg high low passing of
                         Inl x \<Rightarrow> Inl x
                       | Inr report \<Rightarrow> Inr (Some report))))
       None"

definition generate_course_report :: "fmt \<Rightarrow> engine \<Rightarrow> pyval \<Rightarrow> exn + string option" where
  "generate_course_report f e course_name =
     try_except
       (case check_data_loaded e of
          Inl x \<Rightarrow> Inl x
        | Inr ok \<Rightarrow>
            if \<not> ok then Inr None
            else (case validate_course_name e course_name of
                    Inl x \<Rightarrow> Inl x
                  | Inr None \<Rightarrow> Inr None
                  | Inr (Some c) \<Rightarrow>
                      (case get_course_statistics e course_name of
                         Inl x \<Rightarrow> Inl x
                       | Inr None \<Rightarrow> Inr None
                       | Inr (Some stats) \<Rightarrow>
                           Inr (Some
                             (''Course: '' @ c @ nl
                              @ ''Average Score: '' @ fmt_2f f (num_val (average stats)) @ nl
                              @ ''Highest Score: '' @ fmt_2f f (of_int (highest stats)) @ nl
                              @ ''Lowest Score: '' @ fmt_2f f (of_int (lowest stats)) @ nl
                              @ ''Distribution: '' @ str_distribution f (distribution stats) @ nl
                              @ ''Total Students: ''
                              @ str_int f (int (length (priv_students e))) @ nl)))))
       None"

text \<open>The loop over \<^verbatim>\<open>overall_stats['subject_statistics'].items()\<close>; subscripting a
  \<^verbatim>\<open>None\<close> entry raises \<^verbatim>\<open>TypeError\<close>.\<close>

fun subject_blocks :: "fmt \<Rightarrow> nat \<Rightarrow> (string \<times> course_stats option) list \<Rightarrow> exn + string" where
  "subject_blocks f n [] = Inr []"
| "subject_blocks f n ((subject, st) # rest) =
     (case st of
        None \<Rightarrow> Inl TypeError
      | Some stats \<Rightarrow>
          (case subject_blocks f n rest of
             Inl x \<Rightarrow> Inl x
           | Inr bs \<Rightarrow>
               Inr (''Subject: '' @ subject @ nl
                    @ ''  Average: '' @ fmt_2f f (num_val (average stats)) @ nl
                    @ ''  Highest: '' @ fmt_2f f (of_int (highest stats)) @ nl
                    @ ''  Lowest: '' @ fmt_2f f (of_int (lowest stats)) @ nl
                    @ ''  Distribution: '' @ str_distribution f (distribution stats) @ nl
                    @ ''  Total Students: '' @ str_int f (int n) @ nl
                    @ bs)))"

definition generate_class_overview :: "fmt \<Rightarrow> engine \<Rightarrow> exn + string option" where
  "generate_class_overview f e =
     try_except
       (case check_data_loaded e of
          Inl x \<Rightarrow> Inl x
        | Inr ok \<Rightarrow>
            if \<not> ok then Inr None
            else (case calculate_class_statistics e of
                    Inl x \<Rightarrow> Inl x
                  | Inr None \<Rightarrow> Inr None
                  | Inr (Some overall_stats) \<Rightarrow>
                      (case subject_blocks f (length (priv_students e))
                              (subject_statistics overall_stats) of
                         Inl x \<Rightarrow> Inl x
                       | Inr blocks \<Rightarrow>
                           Inr (Some
                             (''Class Overview'' @ nl
                              @ ''Total Students: ''
                              @ str_int f (int (student_count overall_stats)) @ nl
                              @ ''Top Performers: ''
                              @ str_ranking f (top_performers overall_stats) @ nl
                              @ ''Struggling Students (<60): ''
                              @ str_students f (struggling_students overall_stats) @ nl
                              @ blocks)))))
       None"




text \<open>\<open>display_summary\<close> prints and returns nothing. The loop formats the average of every
  subject whose statistics are not \<^verbatim>\<open>None\<close>.\<close>

definition display_summary :: "fmt \<Rightarrow> engine \<Rightarrow> exn + unit" where
  "display_summary f e =
     try_except
       (case check_data_loaded e of
          Inl x \<Rightarrow> Inl x
        | Inr ok \<Rightarrow>
            if \<not> ok then Inr ()
            else (case get_student_count e of
                    Inl x \<Rightarrow> Inl x
                  | Inr n \<Rightarrow>
                      (case calculate_class_statistics e of
                         Inl x \<Rightarrow> Inl x
                       | Inr class_stats \<Rightarrow> Inr ())))
       ()"

section \<open>The object store\<close>

text \<open>
  Python lists and dictionaries are objects, reached by reference. The store holds the
  student dictionaries and the list objects, each under its address; \<open>next_ref\<close> is the
  next address to allocate. The analyzer's \<^verbatim>\<open>_students\<close> is the address of a list object,
  whose elements are addresses of student dictionaries.
\<close>

type_synonym ref = nat

record store =
  dict_objs :: "ref \<Rightarrow> student option"
  list_objs :: "ref \<Rightarrow> ref list option"
  next_ref :: ref

record analyzer =
  a_filename :: string
  a_students :: ref
  a_loaded :: bool

definition list_at :: "store \<Rightarrow> ref \<Rightarrow> ref list" where
  "list_at st r = (case list_objs st r of None \<Rightarrow> [] | Some rs \<Rightarrow> rs)"

definition records_at :: "store \<Rightarrow> ref list \<Rightarrow> student list" where
  "records_at st rs = List.map_filter (dict_objs st) rs"

text \<open>What the methods of the analyzer read: every query above is a function of this
  value.\<close>

definition view :: "store \<Rightarrow> analyzer \<Rightarrow> engine" where
  "view st a =
     \<lparr>priv_filename = a_filename a,
      priv_students = records_at st (list_at st (a_students a)),
      priv_loaded = a_loaded a\<rparr>"

text \<open>The property \<^verbatim>\<open>students\<close>: \<^verbatim>\<open>return self._students.copy()\<close>, a new list object with
  the same elements.\<close>

definition students_copy :: "store \<Rightarrow> analyzer \<Rightarrow> store \<times> ref" where
  "students_copy st a =
     (st\<lparr>list_objs := (list_objs st)(next_ref st \<mapsto> list_at st (a_students a)),
         next_ref := Suc (next_ref st)\<rparr>,
      next_ref st)"

text \<open>What a caller can do with a reference: give a list object new contents (\<^verbatim>\<open>append\<close>,
  \<^verbatim>\<open>remove\<close>, \<^verbatim>\<open>clear\<close>, item assignment, \<^verbatim>\<open>sort\<close>), or change a dictionary it reaches
  (\<^verbatim>\<open>student['grades']['Math'] = 0\<close>).\<close>

definition write_list :: "store \<Rightarrow> ref \<Rightarrow> ref list \<Rightarrow> store" where
  "write_list st r rs = st\<lparr>list_objs := (list_objs st)(r \<mapsto> rs)\<rparr>"

definition write_dict :: "store \<Rightarrow> ref \<Rightarrow> student \<Rightarrow> store" where
  "write_dict st r s = st\<lparr>dict_objs := (dict_objs st)(r \<mapsto> s)\<rparr>"

text \<open>The store after a load: the records of \<open>e\<close> at addresses \<open>0, 1, ...\<close> and the list that
  holds them at the next address.\<close>

definition store_of :: "engine \<Rightarrow> store \<times> analyzer" where
  "store_of e =
     (let n = length (priv_students e) in
      (\<lparr>dict_objs = (\<lambda>r. if r < n then Some (priv_students e ! r) else None),
        list_objs = (\<lambda>r. if r = n then Some [0..<n] else None),
        next_ref = Suc n\<rparr>,
       \<lparr>a_filename = priv_filename e, a_students = n, a_loaded = priv_loaded e\<rparr>))"

section \<open>Reference definitions and sample classes\<close>

text \<open>The median in the words of the specification: the scores sorted ascending; for an
  odd count \<open>n\<close> the element at index \<open>n div 2\<close>, for an even count the mean of the two middle
  elements, nothing for no score.\<close>

definition median_spec :: "int list \<Rightarrow> num option" where
  "median_spec xs =
     (let s = sort xs; n = length s in
      if n = 0 then None
      else if odd n then Some (PInt (s ! (n div 2)))
      else Some (PFloat ((real_of_int (s ! (n div 2 - 1)) + real_of_int (s ! (n div 2))) / 2)))"

text \<open>The number of scores that \<open>convert_to_letter_grade\<close> puts in a band.\<close>

definition band_count :: "string \<Rightarrow> int list \<Rightarrow> nat" where
  "band_count l scores =
     length (filter (\<lambda>s. convert_to_letter_grade (Num (PInt s)) = Inr (Some l)) scores)"



text \<open>A record as \<open>parse_student_line\<close> builds it: one grade per subject, in catalog order.\<close>

definition parsed :: "student \<Rightarrow> bool" where
  "parsed s = (map fst (grades s) = subjects)"

definition class_of_three :: engine where
  "class_of_three =
     \<lparr>priv_filename = ''student_grades.txt'',
      priv_students =
        [make_student ''STU001'' ''Alice'' 70 85 70 60 95,
         make_student ''STU002'' ''Bob'' 50 40 55 65 45,
         make_student ''STU003'' ''Carol'' 60 75 80 90 70],
      priv_loaded = True\<rparr>"


text \<open>A file with a score of 150, and a file with two lines of the same id.\<close>

definition class_with_150 :: engine where
  "class_with_150 =
     \<lparr>priv_filename = ''student_grades.txt'',
      priv_students = [make_student ''STU001'' ''Alice'' 150 85 70 60 95],
      priv_loaded = True\<rparr>"


section \<open>Sentinels of the two averages\<close>

lemma check_data_loaded_eq: "check_data_loaded e = Inr (priv_loaded e)"
  by (simp add: check_data_loaded_def)

lemma validate_course_name_invalid:
  "course_name \<notin> Str ` set subjects \<Longrightarrow> validate_course_name e course_name = Inr None"
  by (cases course_name) (auto simp: validate_course_name_def try_except_def)

lemma validate_course_name_valid:
  "c \<in> set subjects \<Longrightarrow> validate_course_name e (Str c) = Inr (Some c)"
  by (simp add: validate_course_name_def try_except_def)

lemma subject_nonempty: "c \<in> set subjects \<Longrightarrow> c \<noteq> []"
  by (auto simp: subjects_def)

lemma validate_student_id_invalid:
  "student_id \<notin> Str ` sid ` set (priv_students e) \<Longrightarrow>
   validate_student_id e student_id = Inr None"
proof (cases student_id)
  case (Str i)
  assume "student_id \<notin> Str ` sid ` set (priv_students e)"
  with Str have "find (\<lambda>s. sid s = i) (priv_students e) = None"
    by (auto simp: find_None_iff)
  with Str show ?thesis by (simp add: validate_student_id_def try_except_def)
qed (simp_all add: validate_student_id_def try_except_def)

text \<open>
  C3. On an engine that is not loaded, or for a course name that is not one of the five
  subjects, \<open>calculate_course_average\<close> returns the int 0; on an engine that is not loaded,
  or for a student id that no record carries, \<open>calculate_student_average\<close> returns None.
  Both hold for every argument, of any Python type.
\<close>

theorem average_sentinel_asymmetry:
  "(\<not> priv_loaded e \<or> course_name \<notin> Str ` set subjects \<longrightarrow>
      calculate_course_average e course_name = Inr (PInt 0)) \<and>
   (\<not> priv_loaded e \<or> student_id \<notin> Str ` sid ` set (priv_students e) \<longrightarrow>
      calculate_student_average e student_id = Inr None)"
proof (intro conjI impI)
  assume "\<not> priv_loaded e \<or> course_name \<notin> Str ` set subjects"
  then show "calculate_course_average e course_name = Inr (PInt 0)"
    by (auto simp: calculate_course_average_def check_data_loaded_eq try_except_def
        validate_course_name_invalid not_str_def)
next
  assume "\<not> priv_loaded e \<or> student_id \<notin> Str ` sid ` set (priv_students e)"
  then show "calculate_student_average e student_id = Inr None"
    by (auto simp: calculate_student_average_def check_data_loaded_eq try_except_def
        validate_student_id_invalid)
qed

theorem average_sentinel_asymmetry_witness:
  "Str ''Art'' \<notin> Str ` set subjects \<and>
   calculate_course_average
     \<lparr>priv_filename = ''g.txt'', priv_students = [], priv_loaded = True\<rparr> (Str ''Art'')
     = Inr (PInt 0) \<and>
   Str ''STU9'' \<notin> Str ` sid ` set (priv_students
     \<lparr>priv_filename = ''g.txt'', priv_students = [], priv_loaded = True\<rparr>) \<and>
   calculate_student_average
     \<lparr>priv_filename = ''g.txt'', priv_students = [], priv_loaded = True\<rparr> (Str ''STU9'')
     = Inr None"
  using average_sentinel_asymmetry
    [of "\<lparr>priv_filename = ''g.txt'', priv_students = [], priv_loaded = True\<rparr>"
        "Str ''Art''" "Str ''STU9''"]
  by (simp add: subjects_def)

section \<open>Letter grade bands\<close>

lemma first_band_grade_bands:
  "first_band grade_bands v =
     (if 90 \<le> v then ''A'' else if 80 \<le> v then ''B'' else if 70 \<le> v then ''C''
      else if 60 \<le> v then ''D'' else if 50 \<le> v then ''E'' else ''F'')"
  by (simp add: grade_bands_def)



section \<open>The median\<close>


lemma get_course_scores_valid:
  "priv_loaded e \<Longrightarrow> c \<in> set subjects \<Longrightarrow>
   get_course_scores e (Str c) = Inr (map (\<lambda>s. get_default (grades s) c 0) (priv_students e))"
  by (auto simp: get_course_scores_def try_except_def check_data_loaded_eq
      validate_course_name_valid not_str_def subject_nonempty)

lemma get_course_scores_invalid:
  "\<not> priv_loaded e \<or> c \<notin> Str ` set subjects \<Longrightarrow> get_course_scores e c = Inr []"
  by (auto simp: get_course_scores_def try_except_def check_data_loaded_eq
      validate_course_name_invalid not_str_def)

lemma py_getitem_nat: "k < length xs \<Longrightarrow> py_getitem xs (int k) = Inr (xs ! k)"
  by (simp add: py_getitem_def)

lemma py_getitem_half:
  assumes "xs \<noteq> []"
  shows "py_getitem xs (int (length xs) div 2) = Inr (xs ! (length xs div 2))"
proof -
  have "length xs div 2 < length xs" using assms by simp
  from py_getitem_nat [OF this] show ?thesis by (simp add: zdiv_int)
qed

lemma py_getitem_half_pred:
  assumes "xs \<noteq> []" and "even (length xs)"
  shows "py_getitem xs (int (length xs) div 2 - 1) = Inr (xs ! (length xs div 2 - 1))"
proof -
  have "0 < length xs" using assms by simp
  with assms have "1 \<le> length xs div 2" by presburger
  then have "int (length xs) div 2 - 1 = int (length xs div 2 - 1)"
    by (simp add: zdiv_int of_nat_diff)
  moreover have "length xs div 2 - 1 < length xs" using \<open>0 < length xs\<close> by arith
  ultimately show ?thesis using py_getitem_nat [of "length xs div 2 - 1" xs] by simp
qed

lemma median_of_scores:
  assumes "get_course_scores e c = Inr cs"
  shows "find_course_median e c = Inr (median_spec cs)"
proof (cases "cs = []")
  case True
  with assms show ?thesis
    by (simp add: find_course_median_def median_spec_def try_except_def)
next
  case False
  then have ne: "sort cs \<noteq> []" by (metis length_sort length_0_conv)
  show ?thesis
  proof (cases "odd (length cs)")
    case True
    then have par: "int (length cs) mod 2 \<noteq> 0" by presburger
    show ?thesis
      using False True par py_getitem_half [OF ne]
      by (simp add: find_course_median_def assms try_except_def Let_def median_spec_def)
  next
    case even: False
    then have par: "int (length cs) mod 2 = 0" by presburger
    show ?thesis
      using False even par py_getitem_half [OF ne] py_getitem_half_pred [OF ne]
      by (simp add: find_course_median_def assms try_except_def Let_def median_spec_def)
  qed
qed



section \<open>Loading\<close>

lemma parse_student_line_total: "\<exists>r. parse_student_line py_int line = Inr r"
  by (simp add: parse_student_line_def try_except_def split: sum.splits)

lemma read_students_total: "\<exists>sts. read_students py_int acc lines = Inr sts"
proof (induction lines arbitrary: acc)
  case Nil
  show ?case by simp
next
  case (Cons line rest)
  obtain r where r: "parse_student_line py_int line = Inr r"
    using parse_student_line_total by blast
  show ?case
  proof (cases r)
    case None
    with r Cons.IH [of acc] show ?thesis by simp
  next
    case (Some s)
    with r Cons.IH [of "acc @ [s]"] show ?thesis by simp
  qed
qed

lemma load_data_absent: "load_data py_int e Absent = (e, None)"
  by (simp add: load_data_def load_handlers_def)

lemma load_data_unopenable: "load_data py_int e Unopenable = (e\<lparr>priv_loaded := False\<rparr>, None)"
  by (simp add: load_data_def load_handlers_def)

lemma load_data_no_line:
  "load_data py_int e (Content []) = (e\<lparr>priv_students := [], priv_loaded := False\<rparr>, None)"
  by (simp add: load_data_def with_block_def load_handlers_def)

lemma load_data_content:
  "\<exists>sts. load_data py_int e (Content (header # rest)) =
     (e\<lparr>priv_students := sts, priv_loaded := True\<rparr>, None)"
proof -
  obtain sts where "read_students py_int [] rest = Inr sts"
    using read_students_total by blast
  then have "load_data py_int e (Content (header # rest)) =
      (e\<lparr>priv_students := sts, priv_loaded := True\<rparr>, None)"
    by (simp add: load_data_def with_block_def)
  then show ?thesis by blast
qed



text \<open>
  C1. The claim is that a load whose source is absent or unreadable leaves the engine not
  loaded and without records, also after an earlier successful load. The code does not:
  the two resetting assignments stand inside the \<^verbatim>\<open>with\<close> block, after \<^verbatim>\<open>open\<close>, and the
  handler of \<^verbatim>\<open>FileNotFoundError\<close> changes nothing. After a successful load of a file with a
  header line, a second load that finds the file absent returns with the state of the
  first load, still loaded; one that cannot open the file for another reason clears the
  flag and keeps the records.
\<close>

theorem load_data_failure_after_success:
  "priv_loaded (fst (load_data py_int (init name) (Content (header # rest)))) \<and>
   load_data py_int (fst (load_data py_int (init name) (Content (header # rest)))) Absent
     = (fst (load_data py_int (init name) (Content (header # rest))), None) \<and>
   priv_students
     (fst (load_data py_int (fst (load_data py_int (init name) (Content (header # rest)))) Unopenable))
     = priv_students (fst (load_data py_int (init name) (Content (header # rest))))"
proof -
  obtain sts where
    "load_data py_int (init name) (Content (header # rest)) =
       ((init name)\<lparr>priv_students := sts, priv_loaded := True\<rparr>, None)"
    using load_data_content by blast
  then show ?thesis by (simp add: load_data_absent load_data_unopenable)
qed

section \<open>Queries on an engine that is not loaded\<close>

lemma validate_data_unloaded: "\<not> priv_loaded e \<Longrightarrow> validate_data e = Inr False"
  by (simp add: validate_data_def check_data_loaded_eq try_except_def)

lemma get_student_count_unloaded: "\<not> priv_loaded e \<Longrightarrow> get_student_count e = Inr 0"
  by (simp add: get_student_count_def check_data_loaded_eq try_except_def)

lemma calculate_student_average_unloaded:
  "\<not> priv_loaded e \<Longrightarrow> calculate_student_average e i = Inr None"
  by (simp add: calculate_student_average_def check_data_loaded_eq try_except_def)

lemma get_student_highest_score_unloaded:
  "\<not> priv_loaded e \<Longrightarrow> get_student_highest_score e i = Inr None"
  by (simp add: get_student_highest_score_def check_data_loaded_eq try_except_def)

lemma get_student_lowest_score_unloaded:
  "\<not> priv_loaded e \<Longrightarrow> get_student_lowest_score e i = Inr None"
  by (simp add: get_student_lowest_score_def check_data_loaded_eq try_except_def)

lemma is_student_passing_unloaded:
  "\<not> priv_loaded e \<Longrightarrow> is_student_passing e i t = Inr (Some False)"
  by (simp add: is_student_passing_def check_data_loaded_eq try_except_def)

lemma get_student_info_unloaded: "\<not> priv_loaded e \<Longrightarrow> get_student_info f e i = Inr None"
  by (simp add: get_student_info_def check_data_loaded_eq try_except_def)

lemma get_course_scores_unloaded: "\<not> priv_loaded e \<Longrightarrow> get_course_scores e c = Inr []"
  by (simp add: get_course_scores_invalid)

lemma calculate_course_average_unloaded:
  "\<not> priv_loaded e \<Longrightarrow> calculate_course_average e c = Inr (PInt 0)"
  by (simp add: calculate_course_average_def check_data_loaded_eq try_except_def)

lemma find_course_median_unloaded: "\<not> priv_loaded e \<Longrightarrow> find_course_median e c = Inr None"
  using median_of_scores [OF get_course_scores_unloaded] by (simp add: median_spec_def)

lemma get_course_grade_distribution_unloaded:
  "\<not> priv_loaded e \<Longrightarrow> get_course_grade_distribution e c = Inr []"
  by (simp add: get_course_grade_distribution_def check_data_loaded_eq try_except_def)

lemma rank_courses_by_difficulty_unloaded:
  "\<not> priv_loaded e \<Longrightarrow> rank_courses_by_difficulty e = Inr []"
  by (simp add: rank_courses_by_difficulty_def check_data_loaded_eq try_except_def)

lemma get_course_statistics_unloaded:
  "\<not> priv_loaded e \<Longrightarrow> get_course_statistics e c = Inr None"
  by (simp add: get_course_statistics_def check_data_loaded_eq try_except_def)

lemma rank_students_by_average_unloaded:
  "\<not> priv_loaded e \<Longrightarrow> rank_students_by_average e = Inr []"
  by (simp add: rank_students_by_average_def check_data_loaded_eq try_except_def)

lemma get_top_performers_unloaded: "\<not> priv_loaded e \<Longrightarrow> get_top_performers e n = Inr []"
  by (simp add: get_top_performers_def check_data_loaded_eq try_except_def)

lemma get_struggling_students_unloaded:
  "\<not> priv_loaded e \<Longrightarrow> get_struggling_students e t = Inr []"
  by (simp add: get_struggling_students_def check_data_loaded_eq try_except_def)

lemma calculate_class_statistics_unloaded:
  "\<not> priv_loaded e \<Longrightarrow> calculate_class_statistics e = Inr None"
  by (simp add: calculate_class_statistics_def check_data_loaded_eq try_except_def)

lemma find_subject_correlations_unloaded:
  "\<not> priv_loaded e \<Longrightarrow>
   find_subject_correlations np e = Inr (if np_importable np then PyList [] else EmptyDict)"
  by (simp add: find_subject_correlations_def check_data_loaded_eq try_except_def)

lemma get_grade_distribution_summary_unloaded:
  "\<not> priv_loaded e \<Longrightarrow> get_grade_distribution_summary e = Inr []"
  by (simp add: get_grade_distribution_summary_def check_data_loaded_eq try_except_def)

lemma generate_student_report_unloaded:
  "\<not> priv_loaded e \<Longrightarrow> generate_student_report f e i = Inr None"
  by (simp add: generate_student_report_def check_data_loaded_eq try_except_def)

lemma generate_course_report_unloaded:
  "\<not> priv_loaded e \<Longrightarrow> generate_course_report f e c = Inr None"
  by (simp add: generate_course_report_def check_data_loaded_eq try_except_def)

lemma generate_class_overview_unloaded:
  "\<not> priv_loaded e \<Longrightarrow> generate_class_overview f e = Inr None"
  by (simp add: generate_class_overview_def check_data_loaded_eq try_except_def)

lemma display_summary_unloaded: "\<not> priv_loaded e \<Longrightarrow> display_summary f e = Inr ()"
  by (simp add: display_summary_def check_data_loaded_eq try_except_def)

text \<open>
  C10. A load of a readable file with no line at all is a failed load: \<^verbatim>\<open>next(file)\<close>
  raises \<^verbatim>\<open>StopIteration\<close>, the handler catches it, and \<open>load_data\<close> returns with the engine
  not loaded and without records, whatever its state was. Every query that reads the
  records then returns its not-loaded sentinel.
\<close>

theorem load_data_empty_file:
  "load_data py_int e (Content []) = (e\<lparr>priv_students := [], priv_loaded := False\<rparr>, None) \<and>
   check_data_loaded (fst (load_data py_int e (Content []))) = Inr False \<and>
   students (fst (load_data py_int e (Content []))) = Inr [] \<and>
   validate_data (fst (load_data py_int e (Content []))) = Inr False \<and>
   get_student_count (fst (load_data py_int e (Content []))) = Inr 0 \<and>
   calculate_student_average (fst (load_data py_int e (Content []))) i = Inr None \<and>
   get_student_highest_score (fst (load_data py_int e (Content []))) i = Inr None \<and>
   get_student_lowest_score (fst (load_data py_int e (Content []))) i = Inr None \<and>
   is_student_passing (fst (load_data py_int e (Content []))) i t = Inr (Some False) \<and>
   get_student_info f (fst (load_data py_int e (Content []))) i = Inr None \<and>
   get_course_scores (fst (load_data py_int e (Content []))) c = Inr [] \<and>
   calculate_course_average (fst (load_data py_int e (Content []))) c = Inr (PInt 0) \<and>
   find_course_median (fst (load_data py_int e (Content []))) c = Inr None \<and>
   get_course_grade_distribution (fst (load_data py_int e (Content []))) c = Inr [] \<and>
   rank_courses_by_difficulty (fst (load_data py_int e (Content []))) = Inr [] \<and>
   get_course_statistics (fst (load_data py_int e (Content []))) c = Inr None \<and>
   rank_students_by_average (fst (load_data py_int e (Content []))) = Inr [] \<and>
   get_top_performers (fst (load_data py_int e (Content []))) n = Inr [] \<and>
   get_struggling_students (fst (load_data py_int e (Content []))) t = Inr [] \<and>
   calculate_class_statistics (fst (load_data py_int e (Content []))) = Inr None \<and>
   find_subject_correlations np (fst (load_data py_int e (Content [])))
     = Inr (if np_importable np then PyList [] else EmptyDict) \<and>
   get_grade_distribution_summary (fst (load_data py_int e (Content []))) = Inr [] \<and>
   generate_student_report f (fst (load_data py_int e (Content []))) i = Inr None \<and>
   generate_course_report f (fst (load_data py_int e (Content []))) c = Inr None \<and>
   generate_class_overview f (fst (load_data py_int e (Content []))) = Inr None \<and>
   display_summary f (fst (load_data py_int e (Content []))) = Inr ()"
proof -
  define e' where "e' = fst (load_data py_int e (Content []))"
  have st: "load_data py_int e (Content []) = (e\<lparr>priv_students := [], priv_loaded := False\<rparr>, None)"
    by (rule load_data_no_line)
  have un: "\<not> priv_loaded e'" and emp: "priv_students e' = []"
    by (simp_all add: e'_def st)
  have "check_data_loaded e' = Inr False" "students e' = Inr []"
    using un emp by (simp_all add: check_data_loaded_eq students_def)
  moreover note validate_data_unloaded [OF un] get_student_count_unloaded [OF un]
    calculate_student_average_unloaded [OF un] get_student_highest_score_unloaded [OF un]
    get_student_lowest_score_unloaded [OF un] is_student_passing_unloaded [OF un]
    get_student_info_unloaded [OF un] get_course_scores_unloaded [OF un]
    calculate_course_average_unloaded [OF un] find_course_median_unloaded [OF un]
    get_course_grade_distribution_unloaded [OF un] rank_courses_by_difficulty_unloaded [OF un]
    get_course_statistics_unloaded [OF un] rank_students_by_average_unloaded [OF un]
    get_top_performers_unloaded [OF un] get_struggling_students_unloaded [OF un]
    calculate_class_statistics_unloaded [OF un] find_subject_correlations_unloaded [OF un]
    get_grade_distribution_summary_unloaded [OF un] generate_student_report_unloaded [OF un]
    generate_course_report_unloaded [OF un] generate_class_overview_unloaded [OF un]
    display_summary_unloaded [OF un]
  ultimately show ?thesis
    unfolding e'_def [symmetric] using st by (simp split del: if_split)
qed

section \<open>No exception leaves a public method\<close>



section \<open>The grade distribution\<close>

lemma letter_in_range:
  "0 \<le> s \<Longrightarrow> s \<le> 100 \<Longrightarrow>
   convert_to_letter_grade (Num (PInt s)) = Inr (Some (first_band grade_bands (real_of_int s)))"
  by (simp add: convert_to_letter_grade_def try_except_def)

lemma letter_out_of_range:
  "s < 0 \<or> 100 < s \<Longrightarrow> convert_to_letter_grade (Num (PInt s)) = Inr None"
  by (auto simp: convert_to_letter_grade_def try_except_def)

lemma band_count_Nil: "band_count l [] = 0"
  by (simp add: band_count_def)

lemma band_count_Cons:
  "band_count l (s # rest) =
     (if convert_to_letter_grade (Num (PInt s)) = Inr (Some l) then 1 else 0) + band_count l rest"
  by (simp add: band_count_def)

lemma tally_in_range:
  "\<forall>s\<in>set scores. 0 \<le> s \<and> s \<le> 100 \<Longrightarrow>
   tally [(''A'', a), (''B'', b), (''C'', c), (''D'', d), (''E'', e), (''F'', f)] scores =
     Inr [(''A'', a + band_count ''A'' scores), (''B'', b + band_count ''B'' scores),
          (''C'', c + band_count ''C'' scores), (''D'', d + band_count ''D'' scores),
          (''E'', e + band_count ''E'' scores), (''F'', f + band_count ''F'' scores)]"
proof (induction scores arbitrary: a b c d e f)
  case Nil
  show ?case by (simp add: band_count_Nil)
next
  case (Cons s rest)
  then have r: "0 \<le> s" "s \<le> 100" and rest: "\<forall>s\<in>set rest. 0 \<le> s \<and> s \<le> 100"
    by simp_all
  note l = letter_in_range [OF r]
  note ih = Cons.IH [OF rest]
  consider "90 \<le> s" | "80 \<le> s" "s < 90" | "70 \<le> s" "s < 80" | "60 \<le> s" "s < 70"
    | "50 \<le> s" "s < 60" | "s < 50"
    by linarith
  then show ?case
  proof cases
    case 1
    then show ?thesis
      by (simp add: l first_band_grade_bands dict_incr_def ih band_count_Cons)
  next
    case 2
    then show ?thesis
      by (simp add: l first_band_grade_bands dict_incr_def ih band_count_Cons)
  next
    case 3
    then show ?thesis
      by (simp add: l first_band_grade_bands dict_incr_def ih band_count_Cons)
  next
    case 4
    then show ?thesis
      by (simp add: l first_band_grade_bands dict_incr_def ih band_count_Cons)
  next
    case 5
    then show ?thesis
      by (simp add: l first_band_grade_bands dict_incr_def ih band_count_Cons)
  next
    case 6
    then show ?thesis
      by (simp add: l first_band_grade_bands dict_incr_def ih band_count_Cons)
  qed
qed

lemma tally_out_of_range:
  "\<exists>s\<in>set scores. s < 0 \<or> 100 < s \<Longrightarrow>
   tally [(''A'', a), (''B'', b), (''C'', c), (''D'', d), (''E'', e), (''F'', f)] scores
     = Inl KeyError"
proof (induction scores arbitrary: a b c d e f)
  case Nil
  then show ?case by simp
next
  case (Cons s rest)
  show ?case
  proof (cases "s < 0 \<or> 100 < s")
    case True
    then show ?thesis by (simp add: letter_out_of_range dict_incr_def)
  next
    case False
    then have r: "0 \<le> s" "s \<le> 100" by simp_all
    from False Cons.prems have rest: "\<exists>s\<in>set rest. s < 0 \<or> 100 < s" by auto
    note l = letter_in_range [OF r]
    note ih = Cons.IH [OF rest]
    consider "90 \<le> s" | "80 \<le> s" "s < 90" | "70 \<le> s" "s < 80" | "60 \<le> s" "s < 70"
      | "50 \<le> s" "s < 60" | "s < 50"
      by linarith
    then show ?thesis
    proof cases
      case 1
      then show ?thesis by (simp add: l first_band_grade_bands dict_incr_def ih)
    next
      case 2
      then show ?thesis by (simp add: l first_band_grade_bands dict_incr_def ih)
    next
      case 3
      then show ?thesis by (simp add: l first_band_grade_bands dict_incr_def ih)
    next
      case 4
      then show ?thesis by (simp add: l first_band_grade_bands dict_incr_def ih)
    next
      case 5
      then show ?thesis by (simp add: l first_band_grade_bands dict_incr_def ih)
    next
      case 6
      then show ?thesis by (simp add: l first_band_grade_bands dict_incr_def ih)
    qed
  qed
qed

lemma distribution_of_scores:
  assumes "priv_loaded e" and "c \<in> set subjects"
  shows "get_course_grade_distribution e (Str c) =
     try_except
       (tally [(''A'', 0), (''B'', 0), (''C'', 0), (''D'', 0), (''E'', 0), (''F'', 0)]
          (map (\<lambda>s. get_default (grades s) c 0) (priv_students e)))
       []"
  using assms
  by (simp add: get_course_grade_distribution_def check_data_loaded_eq
      validate_course_name_valid not_str_def subject_nonempty get_course_scores_valid)

text \<open>
  C6, as the code has it. For a loaded engine and one of the five subjects: when every
  score of the course lies in [0,100], \<open>get_course_grade_distribution\<close> returns the six
  keys A to F in this order, each with the number of scores that \<open>convert_to_letter_grade\<close>
  puts in that band (zero included); when some score lies outside [0,100], its letter grade
  is None, the update of the dictionary raises \<^verbatim>\<open>KeyError\<close>, and the method returns the
  empty dictionary.
\<close>

theorem grade_distribution_in_range:
  "priv_loaded e \<and> c \<in> set subjects \<longrightarrow>
     ((\<forall>s\<in>set (priv_students e). 0 \<le> get_default (grades s) c 0 \<and> get_default (grades s) c 0 \<le> 100) \<longrightarrow>
        get_course_grade_distribution e (Str c) =
          Inr (map (\<lambda>l. (l, band_count l (map (\<lambda>s. get_default (grades s) c 0) (priv_students e))))
                 [''A'', ''B'', ''C'', ''D'', ''E'', ''F''])) \<and>
     ((\<exists>s\<in>set (priv_students e). get_default (grades s) c 0 < 0 \<or> 100 < get_default (grades s) c 0) \<longrightarrow>
        get_course_grade_distribution e (Str c) = Inr [])"
proof (intro impI conjI)
  assume h: "priv_loaded e \<and> c \<in> set subjects"
  assume "\<forall>s\<in>set (priv_students e). 0 \<le> get_default (grades s) c 0 \<and> get_default (grades s) c 0 \<le> 100"
  then have "\<forall>x\<in>set (map (\<lambda>s. get_default (grades s) c 0) (priv_students e)). 0 \<le> x \<and> x \<le> 100"
    by simp
  from tally_in_range [OF this, of 0 0 0 0 0 0] h
  show "get_course_grade_distribution e (Str c) =
          Inr (map (\<lambda>l. (l, band_count l (map (\<lambda>s. get_default (grades s) c 0) (priv_students e))))
                 [''A'', ''B'', ''C'', ''D'', ''E'', ''F''])"
    by (simp add: distribution_of_scores try_except_def)
next
  assume h: "priv_loaded e \<and> c \<in> set subjects"
  assume "\<exists>s\<in>set (priv_students e). get_default (grades s) c 0 < 0 \<or> 100 < get_default (grades s) c 0"
  then have "\<exists>x\<in>set (map (\<lambda>s. get_default (grades s) c 0) (priv_students e)). x < 0 \<or> 100 < x"
    by simp
  from tally_out_of_range [OF this, of 0 0 0 0 0 0] h
  show "get_course_grade_distribution e (Str c) = Inr []"
    by (simp add: distribution_of_scores try_except_def)
qed

theorem grade_distribution_in_range_witness:
  "priv_loaded class_of_three \<and> ''Math'' \<in> set subjects \<and>
   get_course_grade_distribution class_of_three (Str ''Math'') =
     Inr [(''A'', 0), (''B'', 0), (''C'', 1), (''D'', 1), (''E'', 1), (''F'', 0)] \<and>
   priv_loaded class_with_150 \<and>
   get_course_grade_distribution class_with_150 (Str ''Math'') = Inr []"
  using grade_distribution_in_range [of class_of_three "''Math''"]
    grade_distribution_in_range [of class_with_150 "''Math''"]
  by (simp add: class_of_three_def class_with_150_def make_student_def subjects_def
      get_default_def band_count_def convert_to_letter_grade_def try_except_def
      grade_bands_def)

theorem grade_distribution_150_counterexample:
  "priv_loaded class_with_150 \<and> ''Math'' \<in> set subjects \<and>
   get_course_scores class_with_150 (Str ''Math'') = Inr [150] \<and>
   get_course_grade_distribution class_with_150 (Str ''Math'') = Inr []"
  by (simp add: class_with_150_def make_student_def subjects_def get_default_def
      get_course_scores_def get_course_grade_distribution_def check_data_loaded_def
      validate_course_name_def not_str_def convert_to_letter_grade_def try_except_def
      dict_incr_def)

section \<open>Ranking students\<close>











lemma parse_student_line_parsed:
  "parse_student_line py_int line = Inr (Some s) \<Longrightarrow> parsed s"
  by (auto simp: parse_student_line_def try_except_def Let_def parsed_def make_student_def
      subjects_def split: if_splits sum.splits)

lemma read_students_parsed:
  "list_all parsed acc \<Longrightarrow> read_students py_int acc lines = Inr sts \<Longrightarrow> list_all parsed sts"
proof (induction lines arbitrary: acc)
  case Nil
  then show ?case by simp
next
  case (Cons line rest)
  obtain r where r: "parse_student_line py_int line = Inr r"
    using parse_student_line_total by blast
  show ?case
  proof (cases r)
    case None
    with r Cons show ?thesis by simp
  next
    case (Some s)
    with r have "parsed s" by (simp add: parse_student_line_parsed)
    with Cons.prems(1) have "list_all parsed (acc @ [s])" by simp
    from Cons.IH [OF this] Cons.prems(2) r Some show ?thesis by simp
  qed
qed

lemma load_data_parsed:
  "list_all parsed (priv_students (fst (load_data py_int (init name) src)))"
proof (cases src)
  case Absent
  then show ?thesis by (simp add: load_data_absent init_def)
next
  case Unopenable
  then show ?thesis by (simp add: load_data_unopenable init_def)
next
  case (Content lines)
  show ?thesis
  proof (cases lines)
    case Nil
    with Content show ?thesis by (simp add: load_data_no_line)
  next
    case (Cons header rest)
    obtain sts where sts: "read_students py_int [] rest = Inr sts"
      using read_students_total by blast
    then have "list_all parsed sts" using read_students_parsed [of "[]"] by simp
    with Content Cons sts show ?thesis by (simp add: load_data_def with_block_def)
  qed
next
  case (Broken lines)
  show ?thesis
  proof (cases lines)
    case Nil
    with Broken show ?thesis by (simp add: load_data_def with_block_def load_handlers_def)
  next
    case (Cons header rest)
    obtain sts where sts: "read_students py_int [] rest = Inr sts"
      using read_students_total by blast
    then have "list_all parsed sts" using read_students_parsed [of "[]"] by simp
    with Broken Cons sts show ?thesis
      by (simp add: load_data_def with_block_def load_handlers_def)
  qed
qed




section \<open>The students accessor and the object store\<close>

lemma list_at_copy_other:
  "r \<noteq> next_ref st \<Longrightarrow> list_at (fst (students_copy st a)) r = list_at st r"
  by (simp add: students_copy_def list_at_def)

lemma list_at_copy_new:
  "list_at (fst (students_copy st a)) (snd (students_copy st a)) = list_at st (a_students a)"
  by (simp add: students_copy_def list_at_def)

lemma records_at_copy: "records_at (fst (students_copy st a)) rs = records_at st rs"
  by (simp add: students_copy_def records_at_def)

lemma records_at_write_list: "records_at (write_list st r rs) qs = records_at st qs"
  by (simp add: write_list_def records_at_def)

lemma list_at_write_list_other: "q \<noteq> r \<Longrightarrow> list_at (write_list st r rs) q = list_at st q"
  by (simp add: write_list_def list_at_def)

lemma view_store_of: "view (fst (store_of e)) (snd (store_of e)) = e"
proof -
  have "List.map_filter (\<lambda>r. if r < length xs then Some (xs ! r) else None) [0..<length xs] = xs"
    for xs :: "student list"
  proof -
    have "List.map_filter (\<lambda>r. if r < length xs then Some (xs ! r) else None) [0..<length xs]
        = map (\<lambda>r. xs ! r) [0..<length xs]"
      by (simp add: List.map_filter_def cong: map_cong)
    then show ?thesis by (simp add: map_nth)
  qed
  then show ?thesis
    by (simp add: view_def store_of_def Let_def list_at_def records_at_def)
qed

text \<open>
  C9, as the code has it. \<^verbatim>\<open>self._students.copy()\<close> is a shallow copy. For an analyzer whose
  list is an allocated object, the accessor returns a new list object that holds the
  store's records in store order and leaves the analyzer's view unchanged; whatever the
  caller then makes of the contents of the returned list, the analyzer still reads the
  same records, so its count and the result of every query \<open>q\<close> are unchanged.
\<close>

theorem students_copy_protects_list:
  "a_students a < next_ref st \<longrightarrow>
     records_at (fst (students_copy st a))
        (list_at (fst (students_copy st a)) (snd (students_copy st a)))
       = priv_students (view st a) \<and>
     view (fst (students_copy st a)) a = view st a \<and>
     (\<forall>rs. view (write_list (fst (students_copy st a)) (snd (students_copy st a)) rs) a
            = view st a) \<and>
     (\<forall>rs. get_student_count
              (view (write_list (fst (students_copy st a)) (snd (students_copy st a)) rs) a)
            = get_student_count (view st a)) \<and>
     (\<forall>rs. q (view (write_list (fst (students_copy st a)) (snd (students_copy st a)) rs) a)
            = q (view st a))"
proof
  assume alloc: "a_students a < next_ref st"
  then have other: "a_students a \<noteq> next_ref st" by simp
  have new: "snd (students_copy st a) = next_ref st"
    by (simp add: students_copy_def)
  have same: "view (fst (students_copy st a)) a = view st a"
    by (simp add: view_def records_at_copy list_at_copy_other [OF other])
  have kept: "view (write_list (fst (students_copy st a)) (snd (students_copy st a)) rs) a
      = view st a" for rs
  proof -
    have "list_at (write_list (fst (students_copy st a)) (next_ref st) rs) (a_students a)
        = list_at st (a_students a)"
      using other by (simp add: list_at_write_list_other list_at_copy_other)
    then show ?thesis
      by (simp add: view_def new records_at_write_list records_at_copy)
  qed
  have elems: "records_at (fst (students_copy st a))
        (list_at (fst (students_copy st a)) (snd (students_copy st a)))
       = priv_students (view st a)"
    by (simp add: list_at_copy_new records_at_copy view_def)
  from elems same kept
  show "records_at (fst (students_copy st a))
        (list_at (fst (students_copy st a)) (snd (students_copy st a)))
       = priv_students (view st a) \<and>
     view (fst (students_copy st a)) a = view st a \<and>
     (\<forall>rs. view (write_list (fst (students_copy st a)) (snd (students_copy st a)) rs) a
            = view st a) \<and>
     (\<forall>rs. get_student_count
              (view (write_list (fst (students_copy st a)) (snd (students_copy st a)) rs) a)
            = get_student_count (view st a)) \<and>
     (\<forall>rs. q (view (write_list (fst (students_copy st a)) (snd (students_copy st a)) rs) a)
            = q (view st a))"
    by simp
qed

theorem students_copy_protects_list_witness:
  "a_students (snd (store_of class_of_three)) < next_ref (fst (store_of class_of_three)) \<and>
   view (fst (store_of class_of_three)) (snd (store_of class_of_three)) = class_of_three \<and>
   view (write_list (fst (students_copy (fst (store_of class_of_three)) (snd (store_of class_of_three))))
           (snd (students_copy (fst (store_of class_of_three)) (snd (store_of class_of_three)))) [])
        (snd (store_of class_of_three))
     = class_of_three \<and>
   get_student_count
     (view (write_list (fst (students_copy (fst (store_of class_of_three)) (snd (store_of class_of_three))))
           (snd (students_copy (fst (store_of class_of_three)) (snd (store_of class_of_three)))) [])
        (snd (store_of class_of_three)))
     = Inr 3"
proof -
  have alloc: "a_students (snd (store_of class_of_three)) < next_ref (fst (store_of class_of_three))"
    by (simp add: store_of_def Let_def)
  have three: "get_student_count class_of_three = Inr 3"
    by (simp add: get_student_count_def check_data_loaded_def try_except_def class_of_three_def)
  from students_copy_protects_list
         [of "snd (store_of class_of_three)" "fst (store_of class_of_three)" get_student_count]
       alloc three
  show ?thesis by (simp add: view_store_of)
qed

text \<open>The records are shared: a change made to a record reached through the returned
  list is a change of the store's record.\<close>

theorem students_copy_shares_records_counterexample:
  "list_at (fst (students_copy (fst (store_of class_of_three)) (snd (store_of class_of_three))))
     (snd (students_copy (fst (store_of class_of_three)) (snd (store_of class_of_three))))
     = [0, 1, 2] \<and>
   calculate_student_average
     (view (fst (students_copy (fst (store_of class_of_three)) (snd (store_of class_of_three))))
        (snd (store_of class_of_three)))
     (Str ''STU001'') = Inr (Some 76) \<and>
   calculate_student_average
     (view (write_dict
              (fst (students_copy (fst (store_of class_of_three)) (snd (store_of class_of_three))))
              0 (make_student ''STU001'' ''Alice'' 0 0 0 0 0))
        (snd (store_of class_of_three)))
     (Str ''STU001'') = Inr (Some 0)"
  by (simp add: store_of_def Let_def students_copy_def write_dict_def view_def list_at_def
      records_at_def List.map_filter_def class_of_three_def make_student_def
      calculate_student_average_def check_data_loaded_def validate_student_id_def
      try_except_def py_mean_def upt_rec)

end
